theory Spec2Isabelle
  imports Complex_Main
begin

section \<open>Data model\<close>

text \<open>
  The server is an Express application: \<^verbatim>\<open>createServer\<close> binds every endpoint to a
  middleware chain, the handlers of \<^verbatim>\<open>PostHandler\<close> and \<^verbatim>\<open>LikeHandler\<close> translate a
  request into calls of the \<^verbatim>\<open>Datastore\<close> they were constructed with, and the web
  client wraps its queries in a retry policy. A call of the datastore returns a promise; it
  is modelled by the value the promise settles to.
\<close>

datatype 'a promise = Rejected string | Resolved 'a

text \<open>
  The values a JSON body holds once \<^verbatim>\<open>express.json()\<close> has parsed it. A number is the
  value of the parsed double; a literal too large for a double parses to an infinity
  (\<open>JsonInfinity\<close>, with its sign). The handlers are typed for strings but test the
  fields of the body with \<^verbatim>\<open>!x\<close> only, so whatever value is truthy is passed on as it
  is. \<open>truthy\<close> is JavaScript's truthiness on these values: \<^verbatim>\<open>null\<close>, \<^verbatim>\<open>false\<close>, zero
  and the empty string are falsy, every other value is truthy.
\<close>

datatype Json =
    JsonNull
  | JsonBool bool
  | JsonNumber real
  | JsonInfinity bool
  | JsonString string
  | JsonArray "Json list"
  | JsonObject "(string \<times> Json) list"

fun truthy :: "Json \<Rightarrow> bool" where
  "truthy JsonNull = False"
| "truthy (JsonBool b) = b"
| "truthy (JsonNumber x) = (x \<noteq> 0)"
| "truthy (JsonInfinity negative) = True"
| "truthy (JsonString v) = (v \<noteq> [])"
| "truthy (JsonArray vs) = True"
| "truthy (JsonObject kvs) = True"

text \<open>
  \<^verbatim>\<open>Post\<close> and \<^verbatim>\<open>Like\<close> of the shared package. Both take their \<^verbatim>\<open>userId\<close> from
  \<^verbatim>\<open>res.locals.userId\<close>, which is \<^verbatim>\<open>undefined\<close> when no identity was attached, hence the
  option. The \<^verbatim>\<open>title\<close> and \<^verbatim>\<open>url\<close> of a post are the two fields of the request body
  as they came.
\<close>

record Post =
  post_id :: string
  post_postedAt :: nat
  post_title :: Json
  post_url :: Json
  post_userId :: "string option"

record Like =
  like_postId :: string
  like_userId :: "string option"

text \<open>
  The \<^verbatim>\<open>Datastore\<close> interface, as far as the two handlers call it. The handlers receive
  it through their constructor, so it is a parameter of every handler here; \<open>'s\<close> is
  whatever the datastore keeps. Queries read the state, commands return the state they
  leave behind together with the outcome of their promise. \<^verbatim>\<open>deletePost\<close> is given the
  \<^verbatim>\<open>postId\<close> field of the request body as it came.
\<close>

record 's Datastore =
  listPosts :: "string option \<Rightarrow> 's \<Rightarrow> Post list promise"
  createPost :: "Post \<Rightarrow> 's \<Rightarrow> unit promise \<times> 's"
  getPost :: "string \<Rightarrow> string option \<Rightarrow> 's \<Rightarrow> Post option promise"
  deletePost :: "Json \<Rightarrow> 's \<Rightarrow> unit promise \<times> 's"
  createLike :: "Like \<Rightarrow> 's \<Rightarrow> unit promise \<times> 's"
  deleteLike :: "Like \<Rightarrow> 's \<Rightarrow> unit promise \<times> 's"
  getLikes :: "string \<Rightarrow> 's \<Rightarrow> nat promise"
  exists :: "Like \<Rightarrow> 's \<Rightarrow> bool promise"

text \<open>
  A request carries its path parameters, its JSON body and its \<^verbatim>\<open>Authorization\<close>
  header; \<^verbatim>\<open>req.params.postId\<close> is \<open>params req ''postId''\<close>, and an absent property is
  \<open>None\<close>. \<^verbatim>\<open>res.locals\<close> is the request-scoped context.
\<close>

record Request =
  params :: "string \<rightharpoonup> string"
  body :: "string \<rightharpoonup> Json"
  authorization :: "string option"

record Locals =
  userId :: "string option"

datatype Body =
    StatusText
  | ErrorBody string
  | LikesBody nat
  | PostBody Post
  | PostsBody "Post list"
  | GenericFailure

record Response =
  status :: nat
  payload :: Body

text \<open>
  \<^verbatim>\<open>res.sendStatus(c)\<close> answers with the status and its standard text,
  \<^verbatim>\<open>res.status(c).send(b)\<close> with the status and \<^verbatim>\<open>b\<close>, \<^verbatim>\<open>res.send(b)\<close> with 200.
\<close>

definition sendStatus :: "nat \<Rightarrow> Response" where
  "sendStatus c = \<lparr>status = c, payload = StatusText\<rparr>"

definition send_with_status :: "nat \<Rightarrow> Body \<Rightarrow> Response" where
  "send_with_status c b = \<lparr>status = c, payload = b\<rparr>"

definition send :: "Body \<Rightarrow> Response" where
  "send b = \<lparr>status = 200, payload = b\<rparr>"

type_synonym 's Handler = "Request \<Rightarrow> Locals \<Rightarrow> 's \<Rightarrow> Response promise \<times> 's"

section \<open>LikeHandler\<close>

text \<open>
  The guard \<^verbatim>\<open>!req.params.postId\<close> holds for an absent parameter and for the empty
  string. An awaited call that rejects makes the handler's own promise reject. \<^verbatim>\<open>createLike\<close>
  and \<^verbatim>\<open>deleteLike\<close> are called without \<^verbatim>\<open>await\<close>: the handler goes on to
  \<^verbatim>\<open>res.sendStatus(200)\<close> whatever their promise settles to, and only the state they
  leave is kept.
\<close>

definition LikeHandler_create :: "'s Datastore \<Rightarrow> 's Handler" where
  "LikeHandler_create db req locals s =
     (case params req ''postId'' of
        None \<Rightarrow> (Resolved (send_with_status 400 (ErrorBody ''Post ID missing'')), s)
      | Some postId \<Rightarrow>
          if postId = [] then
            (Resolved (send_with_status 400 (ErrorBody ''Post ID missing'')), s)
          else
            (case getPost db postId None s of
               Rejected e \<Rightarrow> (Rejected e, s)
             | Resolved None \<Rightarrow>
                 (Resolved (send_with_status 404 (ErrorBody ''No post found with this ID'')), s)
             | Resolved (Some p) \<Rightarrow>
                 (case exists db \<lparr>like_postId = postId, like_userId = userId locals\<rparr> s of
                    Rejected e \<Rightarrow> (Rejected e, s)
                  | Resolved found \<Rightarrow>
                      if found then
                        (Resolved (send_with_status 400
                           (ErrorBody ''No more likes for same post, same userid'')), s)
                      else
                        (Resolved (sendStatus 200),
                         snd (createLike db
                                \<lparr>like_postId = postId, like_userId = userId locals\<rparr> s)))))"

definition LikeHandler_delete :: "'s Datastore \<Rightarrow> 's Handler" where
  "LikeHandler_delete db req locals s =
     (case params req ''postId'' of
        None \<Rightarrow> (Resolved (send_with_status 400 (ErrorBody ''Post ID missing'')), s)
      | Some postId \<Rightarrow>
          if postId = [] then
            (Resolved (send_with_status 400 (ErrorBody ''Post ID missing'')), s)
          else
            (case getPost db postId None s of
               Rejected e \<Rightarrow> (Rejected e, s)
             | Resolved None \<Rightarrow>
                 (Resolved (send_with_status 404 (ErrorBody ''No post found with this ID'')), s)
             | Resolved (Some p) \<Rightarrow>
                 (Resolved (sendStatus 200),
                  snd (deleteLike db
                         \<lparr>like_postId = postId, like_userId = userId locals\<rparr> s))))"

definition LikeHandler_list :: "'s Datastore \<Rightarrow> 's Handler" where
  "LikeHandler_list db req locals s =
     (case params req ''postId'' of
        None \<Rightarrow> (Resolved (send_with_status 400 (ErrorBody ''Post ID missing'')), s)
      | Some postId \<Rightarrow>
          if postId = [] then
            (Resolved (send_with_status 400 (ErrorBody ''Post ID missing'')), s)
          else
            (case getLikes db postId s of
               Rejected e \<Rightarrow> (Rejected e, s)
             | Resolved count \<Rightarrow> (Resolved (send (LikesBody count)), s)))"

section \<open>PostHandler\<close>

text \<open>
  \<^verbatim>\<open>create\<close> reads \<^verbatim>\<open>crypto.randomUUID()\<close> and \<^verbatim>\<open>Date.now()\<close>; the two values read
  are the arguments \<open>uuid\<close> and \<open>now\<close>. \<^verbatim>\<open>createPost\<close> is awaited, \<^verbatim>\<open>deletePost\<close> is not.
  The guards \<^verbatim>\<open>!req.body.title || !req.body.url\<close> and \<^verbatim>\<open>!req.body.postId\<close> hold for an
  absent field and for a falsy value.
\<close>

definition PostHandler_list :: "'s Datastore \<Rightarrow> 's Handler" where
  "PostHandler_list db req locals s =
     (case listPosts db (userId locals) s of
        Rejected e \<Rightarrow> (Rejected e, s)
      | Resolved ps \<Rightarrow> (Resolved (send (PostsBody ps)), s))"

definition PostHandler_create :: "'s Datastore \<Rightarrow> string \<Rightarrow> nat \<Rightarrow> 's Handler" where
  "PostHandler_create db uuid now req locals s =
     (case body req ''title'' of
        None \<Rightarrow> (Resolved (sendStatus 400), s)
      | Some title \<Rightarrow>
          (case body req ''url'' of
             None \<Rightarrow> (Resolved (sendStatus 400), s)
           | Some url \<Rightarrow>
               if \<not> truthy title \<or> \<not> truthy url then (Resolved (sendStatus 400), s)
               else
                 (case createPost db
                         \<lparr>post_id = uuid, post_postedAt = now, post_title = title,
                          post_url = url, post_userId = userId locals\<rparr> s of
                    (Rejected e, s') \<Rightarrow> (Rejected e, s')
                  | (Resolved u, s') \<Rightarrow> (Resolved (sendStatus 200), s'))))"

definition PostHandler_delete :: "'s Datastore \<Rightarrow> 's Handler" where
  "PostHandler_delete db req locals s =
     (case body req ''postId'' of
        None \<Rightarrow> (Resolved (sendStatus 400), s)
      | Some postId \<Rightarrow>
          if \<not> truthy postId then (Resolved (sendStatus 400), s)
          else (Resolved (sendStatus 200), snd (deletePost db postId s)))"

definition PostHandler_get :: "'s Datastore \<Rightarrow> 's Handler" where
  "PostHandler_get db req locals s =
     (case params req ''id'' of
        None \<Rightarrow> (Resolved (sendStatus 400), s)
      | Some i \<Rightarrow>
          if i = [] then (Resolved (sendStatus 400), s)
          else
            (case getPost db i (userId locals) s of
               Rejected e \<Rightarrow> (Rejected e, s)
             | Resolved None \<Rightarrow> (Resolved (sendStatus 404), s)
             | Resolved (Some postToReturn) \<Rightarrow>
                 (Resolved (send (PostBody postToReturn)), s)))"

section \<open>Endpoint registration\<close>

text \<open>
  The sixteen members of the \<^verbatim>\<open>Endpoints\<close> enumeration are the keys of the
  \<^verbatim>\<open>HANDLERS\<close> table of \<^verbatim>\<open>createServer\<close>. \<^verbatim>\<open>ENDPOINT_CONFIGS\<close> belongs to the shared
  package; \<^verbatim>\<open>createServer\<close> reads three fields of an entry: the HTTP verb (here
  \<open>http_method\<close>), \<^verbatim>\<open>url\<close> and \<^verbatim>\<open>auth\<close>. The table and the handlers are parameters
  of the registration.
\<close>

datatype Endpoints =
    Endpoints_healthz
  | Endpoints_signin
  | Endpoints_signup
  | Endpoints_getUser
  | Endpoints_getCurrentUser
  | Endpoints_listPosts
  | Endpoints_getPost
  | Endpoints_createPost
  | Endpoints_deletePost
  | Endpoints_listLikes
  | Endpoints_createLike
  | Endpoints_deleteLike
  | Endpoints_countComments
  | Endpoints_listComments
  | Endpoints_createComment
  | Endpoints_deleteComment

definition Endpoints_keys :: "Endpoints list" where
  "Endpoints_keys =
     [Endpoints_healthz, Endpoints_signin, Endpoints_signup, Endpoints_getUser,
      Endpoints_getCurrentUser, Endpoints_listPosts, Endpoints_getPost,
      Endpoints_createPost, Endpoints_deletePost, Endpoints_listLikes,
      Endpoints_createLike, Endpoints_deleteLike, Endpoints_countComments,
      Endpoints_listComments, Endpoints_createComment, Endpoints_deleteComment]"

record EndpointConfig =
  url :: string
  http_method :: string
  auth :: bool

text \<open>
  A middleware either passes the request on (\<^verbatim>\<open>next()\<close>), answers it, or passes an
  error on (\<^verbatim>\<open>next(err)\<close>).
\<close>

datatype 's Step = Next Locals 's | Answered Response 's | NextError string 's

type_synonym 's RequestHandler = "Request \<Rightarrow> Locals \<Rightarrow> 's \<Rightarrow> 's Step"

text \<open>
  \<^verbatim>\<open>asyncHandler\<close> of express-async-handler: a handler whose promise rejects has the
  rejection passed to \<^verbatim>\<open>next\<close>.
\<close>

definition asyncHandler :: "'s Handler \<Rightarrow> 's RequestHandler" where
  "asyncHandler handler req locals s =
     (case handler req locals s of
        (Resolved r, s') \<Rightarrow> Answered r s'
      | (Rejected e, s') \<Rightarrow> NextError e s')"

text \<open>
  Modelled from the spec: \<^verbatim>\<open>jwtParseMiddleware\<close> and \<^verbatim>\<open>enforceJwtMiddleware\<close> of
  \<^verbatim>\<open>middleware/authMiddleware\<close>, which is not among the sources. Section 4.2: the parse
  stage reads a bearer credential; if it is present and valid the resolved identity is
  attached to the request context, otherwise the request proceeds without identity. The
  enforce stage fails the request with Unauthorized (401) if no identity was resolved.
  \<open>verify\<close> is the credential check, which the spec leaves to the JWT library: it maps a
  credential to the identity it proves, or to \<open>None\<close>.
\<close>

definition jwtParseMiddleware :: "(string \<Rightarrow> string option) \<Rightarrow> 's RequestHandler" where
  "jwtParseMiddleware verify req locals s =
     (case authorization req of
        None \<Rightarrow> Next locals s
      | Some credential \<Rightarrow>
          (case verify credential of
             None \<Rightarrow> Next locals s
           | Some uid \<Rightarrow> Next (locals\<lparr>userId := Some uid\<rparr>) s))"

definition enforceJwtMiddleware :: "'s RequestHandler" where
  "enforceJwtMiddleware req locals s =
     (if userId locals = None then Answered (sendStatus 401) s else Next locals s)"

text \<open>
  Modelled from the spec: \<^verbatim>\<open>errHandler\<close> of \<^verbatim>\<open>middleware/errorMiddleware\<close>, which is
  not among the sources. Section 7: the top-level error boundary converts an unexpected
  failure to a generic 500 without leaking internals.
\<close>

definition errHandler :: "string \<Rightarrow> Response" where
  "errHandler err = \<lparr>status = 500, payload = GenericFailure\<rparr>"

text \<open>
  What \<^verbatim>\<open>createServer\<close> registers with the Express application for one endpoint: the
  HTTP verb, the URL and the chain. \<^verbatim>\<open>bind\<close> is the body of the \<^verbatim>\<open>forEach\<close> of
  \<^verbatim>\<open>createServer\<close>, \<^verbatim>\<open>register\<close> the loop over \<^verbatim>\<open>Object.keys(Endpoints)\<close>.
\<close>

record 's Route =
  route_method :: string
  route_url :: string
  chain :: "'s RequestHandler list"

definition bind :: "(string \<Rightarrow> string option) \<Rightarrow> EndpointConfig \<Rightarrow> 's Handler \<Rightarrow> 's Route" where
  "bind verify config handler =
     (if auth config then
        \<lparr>route_method = http_method config, route_url = url config,
         chain = [jwtParseMiddleware verify, enforceJwtMiddleware, asyncHandler handler]\<rparr>
      else
        \<lparr>route_method = http_method config, route_url = url config,
         chain = [jwtParseMiddleware verify, asyncHandler handler]\<rparr>)"

definition register ::
  "(string \<Rightarrow> string option) \<Rightarrow> (Endpoints \<Rightarrow> EndpointConfig) \<Rightarrow> (Endpoints \<Rightarrow> 's Handler)
     \<Rightarrow> 's Route list" where
  "register verify ENDPOINT_CONFIGS HANDLERS =
     map (\<lambda>entry. bind verify (ENDPOINT_CONFIGS entry) (HANDLERS entry)) Endpoints_keys"

text \<open>
  Express runs the chain of the matched route in order. An error passed to \<^verbatim>\<open>next\<close>
  skips to the error middleware registered by \<^verbatim>\<open>app.use(errHandler)\<close>; a chain that
  ends without an answer falls through to the default 404.
\<close>

fun run_chain :: "'s RequestHandler list \<Rightarrow> Request \<Rightarrow> Locals \<Rightarrow> 's \<Rightarrow> Response \<times> 's" where
  "run_chain [] req locals s = (sendStatus 404, s)"
| "run_chain (m # ms) req locals s =
     (case m req locals s of
        Next locals' s' \<Rightarrow> run_chain ms req locals' s'
      | Answered r s' \<Rightarrow> (r, s')
      | NextError e s' \<Rightarrow> (errHandler e, s'))"

section \<open>The web client's retry policy\<close>

text \<open>
  The \<^verbatim>\<open>retry\<close> option of the \<^verbatim>\<open>QueryClient\<close>. The error is cast to \<^verbatim>\<open>ApiError\<close>
  and its \<^verbatim>\<open>status\<close> property read; an \<^verbatim>\<open>ApiError\<close> holds the integer status of the
  response, any other error holds whatever it holds, or nothing. Past the \<^verbatim>\<open>typeof\<close>
  test the status is a number, so the last two cases of the comparison are never reached.
\<close>

datatype JsValue = JsUndefined | JsString string | JsNumber int

fun typeof :: "JsValue \<Rightarrow> string" where
  "typeof JsUndefined = ''undefined''"
| "typeof (JsString v) = ''string''"
| "typeof (JsNumber n) = ''number''"

record QueryError =
  error_status :: JsValue
  error_message :: string

definition ApiError :: "int \<Rightarrow> string \<Rightarrow> QueryError" where
  "ApiError st msg = \<lparr>error_status = JsNumber st, error_message = msg\<rparr>"

definition retry :: "nat \<Rightarrow> QueryError \<Rightarrow> bool" where
  "retry failureCount error =
     (if typeof (error_status error) \<noteq> ''number'' then True
      else
        (case error_status error of
           JsNumber st \<Rightarrow> st \<ge> 500 \<and> failureCount < 2
         | JsUndefined \<Rightarrow> True
         | JsString v \<Rightarrow> True))"

section \<open>An in-memory datastore\<close>

text \<open>
  Modelled from the spec: an implementation of the Datastore contract of section 2
  (\<^verbatim>\<open>src/server/datastore\<close> is not among the sources), used as the concrete datastore of
  the examples. It keeps the posts and the likes in two lists; a post is found by its
  \<^verbatim>\<open>id\<close> whoever asks, a like by its pair.
\<close>

record Memory =
  posts :: "Post list"
  likes :: "Like list"

definition memory_db :: "Memory Datastore" where
  "memory_db =
     \<lparr>listPosts = (\<lambda>uid m. Resolved (posts m)),
      createPost = (\<lambda>p m. (Resolved (), m\<lparr>posts := posts m @ [p]\<rparr>)),
      getPost = (\<lambda>i uid m. Resolved (find (\<lambda>p. post_id p = i) (posts m))),
      deletePost =
        (\<lambda>i m. (Resolved (), m\<lparr>posts := filter (\<lambda>p. JsonString (post_id p) \<noteq> i) (posts m)\<rparr>)),
      createLike = (\<lambda>l m. (Resolved (), m\<lparr>likes := likes m @ [l]\<rparr>)),
      deleteLike = (\<lambda>l m. (Resolved (), m\<lparr>likes := filter (\<lambda>k. k \<noteq> l) (likes m)\<rparr>)),
      getLikes = (\<lambda>i m. Resolved (length (filter (\<lambda>k. like_postId k = i) (likes m)))),
      exists = (\<lambda>l m. Resolved (l \<in> set (likes m)))\<rparr>"

text \<open>
  The same datastore when its commands fail: every \<^verbatim>\<open>createLike\<close>, \<^verbatim>\<open>deleteLike\<close>
  and \<^verbatim>\<open>deletePost\<close> rejects and changes nothing.
\<close>

definition failing_db :: "Memory Datastore" where
  "failing_db =
     memory_db
       \<lparr>createLike := (\<lambda>l m. (Rejected ''SQLITE_BUSY'', m)),
        deleteLike := (\<lambda>l m. (Rejected ''SQLITE_BUSY'', m)),
        deletePost := (\<lambda>i m. (Rejected ''SQLITE_BUSY'', m))\<rparr>"

section \<open>The spec's error classes\<close>

text \<open>
  The error taxonomy of section 7 of the spec, read off the status code of a response the
  way the table of section 6 does: 400 is BadRequest, 401 Unauthorized, 404 NotFound;
  Conflict is the HTTP status 409. The handlers themselves only ever name status codes.
\<close>

datatype ErrorClass = BadRequest | NotFound | Unauthorized | Conflict

definition spec_error_class :: "nat \<Rightarrow> ErrorClass option" where
  "spec_error_class c =
     (if c = 400 then Some BadRequest
      else if c = 401 then Some Unauthorized
      else if c = 404 then Some NotFound
      else if c = 409 then Some Conflict
      else None)"

section \<open>Example requests\<close>

text \<open>
  The end-to-end scenario of section 8: user \<^verbatim>\<open>U1\<close> has posted \<^verbatim>\<open>{title: "Hi", url:
  "http://x"}\<close>, user \<^verbatim>\<open>U2\<close> likes it.
\<close>

definition example_post :: Post where
  "example_post =
     \<lparr>post_id = ''p1'', post_postedAt = 1700000000000, post_title = JsonString ''Hi'',
      post_url = JsonString ''http://x'', post_userId = Some ''U1''\<rparr>"


definition example_like :: Like where
  "example_like = \<lparr>like_postId = ''p1'', like_userId = Some ''U2''\<rparr>"

definition no_posts :: Memory where
  "no_posts = \<lparr>posts = [], likes = []\<rparr>"

definition one_post :: Memory where
  "one_post = \<lparr>posts = [example_post], likes = []\<rparr>"


definition one_like :: Memory where
  "one_like = \<lparr>posts = [example_post], likes = [example_like]\<rparr>"

definition request_for :: "string \<Rightarrow> string \<Rightarrow> Request" where
  "request_for name v =
     \<lparr>params = [name \<mapsto> v], body = Map.empty, authorization = Some ''Bearer t2''\<rparr>"

definition request_with_body :: "(string \<rightharpoonup> Json) \<Rightarrow> Request" where
  "request_with_body b = \<lparr>params = Map.empty, body = b, authorization = Some ''Bearer t1''\<rparr>"

definition bare_request :: Request where
  "bare_request = \<lparr>params = Map.empty, body = Map.empty, authorization = None\<rparr>"

definition as_user :: "string \<Rightarrow> Locals" where
  "as_user u = \<lparr>userId = Some u\<rparr>"

definition anonymous :: Locals where
  "anonymous = \<lparr>userId = None\<rparr>"

definition gated_config :: EndpointConfig where
  "gated_config = \<lparr>url = ''/api/v1/likes/:postId'', http_method = ''post'', auth = True\<rparr>"

definition open_config :: EndpointConfig where
  "open_config = \<lparr>url = ''/api/v1/likes/:postId'', http_method = ''get'', auth = False\<rparr>"

definition example_verify :: "string \<Rightarrow> string option" where
  "example_verify credential =
     (if credential = ''Bearer t1'' then Some ''U1''
      else if credential = ''Bearer t2'' then Some ''U2''
      else None)"

section \<open>The examples, evaluated\<close>

lemma memory_getPost_example [simp]:
  "getPost memory_db ''p1'' uid one_post = Resolved (Some example_post)"
  "getPost memory_db ''p1'' uid one_like = Resolved (Some example_post)"
  "getPost memory_db ''p9'' uid one_post = Resolved None"
  by (simp_all add: memory_db_def one_post_def one_like_def example_post_def)

lemma memory_exists_example [simp]:
  "exists memory_db example_like one_post = Resolved False"
  "exists memory_db example_like one_like = Resolved True"
  by (simp_all add: memory_db_def one_post_def one_like_def)

lemma memory_createLike_example [simp]:
  "createLike memory_db example_like one_post = (Resolved (), one_like)"
  by (simp add: memory_db_def one_post_def one_like_def)

lemma memory_deleteLike_example [simp]:
  "deleteLike memory_db example_like one_like = (Resolved (), one_post)"
  "deleteLike memory_db example_like one_post = (Resolved (), one_post)"
  by (simp_all add: memory_db_def one_post_def one_like_def)

lemma request_for_params [simp]:
  "params (request_for name v) name = Some v"
  "params bare_request name = None"
  by (simp_all add: request_for_def bare_request_def)

lemma as_user_like [simp]:
  "\<lparr>like_postId = ''p1'', like_userId = userId (as_user ''U2'')\<rparr> = example_like"
  by (simp add: as_user_def example_like_def)

section \<open>LikeHandler.create\<close>

text \<open>
  C1. The contract of Like \<^verbatim>\<open>create\<close>, for every datastore, request, identity and
  state. If \<^verbatim>\<open>postId\<close> is missing (or empty, which Express never binds a path parameter
  to) the answer is 400 with the error \<^verbatim>\<open>Post ID missing\<close>. Otherwise, if the datastore
  finds no post with that id, the answer is 404. Otherwise, if a Like exists for the pair
  of the post id and the resolved user id, the answer is 400 with the duplicate-like
  error. Otherwise the Like of exactly that pair is handed to \<^verbatim>\<open>createLike\<close> and the
  answer is the bare status 200. In the first three cases the datastore is left as it was.
\<close>

theorem LikeHandler_create_contract:
  "(params req ''postId'' = None \<or> params req ''postId'' = Some [] \<longrightarrow>
      LikeHandler_create db req locals s =
        (Resolved (send_with_status 400 (ErrorBody ''Post ID missing'')), s))
   \<and> (params req ''postId'' = Some pid \<and> pid \<noteq> [] \<longrightarrow>
        (getPost db pid None s = Resolved None \<longrightarrow>
           LikeHandler_create db req locals s =
             (Resolved (send_with_status 404 (ErrorBody ''No post found with this ID'')), s))
      \<and> (getPost db pid None s = Resolved (Some p) \<and>
           exists db \<lparr>like_postId = pid, like_userId = userId locals\<rparr> s = Resolved True \<longrightarrow>
           LikeHandler_create db req locals s =
             (Resolved (send_with_status 400
                (ErrorBody ''No more likes for same post, same userid'')), s))
      \<and> (getPost db pid None s = Resolved (Some p) \<and>
           exists db \<lparr>like_postId = pid, like_userId = userId locals\<rparr> s = Resolved False \<longrightarrow>
           LikeHandler_create db req locals s =
             (Resolved (sendStatus 200),
              snd (createLike db \<lparr>like_postId = pid, like_userId = userId locals\<rparr> s))))"
  by (auto simp: LikeHandler_create_def)

theorem LikeHandler_create_contract_witness:
  "LikeHandler_create memory_db bare_request (as_user ''U2'') one_post =
     (Resolved \<lparr>status = 400, payload = ErrorBody ''Post ID missing''\<rparr>, one_post)
   \<and> LikeHandler_create memory_db (request_for ''postId'' ''p9'') (as_user ''U2'') one_post =
     (Resolved \<lparr>status = 404, payload = ErrorBody ''No post found with this ID''\<rparr>, one_post)
   \<and> LikeHandler_create memory_db (request_for ''postId'' ''p1'') (as_user ''U2'') one_like =
     (Resolved \<lparr>status = 400,
        payload = ErrorBody ''No more likes for same post, same userid''\<rparr>, one_like)
   \<and> LikeHandler_create memory_db (request_for ''postId'' ''p1'') (as_user ''U2'') one_post =
     (Resolved \<lparr>status = 200, payload = StatusText\<rparr>, one_like)"
proof -
  note c = LikeHandler_create_contract [where db = memory_db and locals = "as_user ''U2''"]
  have a: "LikeHandler_create memory_db bare_request (as_user ''U2'') one_post =
     (Resolved (send_with_status 400 (ErrorBody ''Post ID missing'')), one_post)"
    using c [where req = bare_request and s = one_post, THEN conjunct1] by simp
  have b: "LikeHandler_create memory_db (request_for ''postId'' ''p9'') (as_user ''U2'') one_post =
     (Resolved (send_with_status 404 (ErrorBody ''No post found with this ID'')), one_post)"
    using c [where req = "request_for ''postId'' ''p9''" and s = one_post and pid = "''p9''",
        THEN conjunct2] by simp
  have d: "LikeHandler_create memory_db (request_for ''postId'' ''p1'') (as_user ''U2'') one_like =
     (Resolved (send_with_status 400
        (ErrorBody ''No more likes for same post, same userid'')), one_like)"
    using c [where req = "request_for ''postId'' ''p1''" and s = one_like and pid = "''p1''"
        and p = example_post, THEN conjunct2] by simp
  have e: "LikeHandler_create memory_db (request_for ''postId'' ''p1'') (as_user ''U2'') one_post =
     (Resolved (sendStatus 200), one_like)"
    using c [where req = "request_for ''postId'' ''p1''" and s = one_post and pid = "''p1''"
        and p = example_post, THEN conjunct2] by simp
  from a b d e show ?thesis
    by (simp add: send_with_status_def sendStatus_def)
qed

text \<open>
  C2. Liking the same post twice, as claimed: the first call succeeds and the second one
  is answered with a Conflict. The handler answers the second call with the status 400,
  which is a BadRequest and not a Conflict; user \<^verbatim>\<open>U2\<close> liking post \<^verbatim>\<open>p1\<close> twice shows
  it.
\<close>

theorem LikeHandler_create_twice_not_Conflict:
  "LikeHandler_create memory_db (request_for ''postId'' ''p1'') (as_user ''U2'') one_post =
     (Resolved \<lparr>status = 200, payload = StatusText\<rparr>, one_like)
   \<and> LikeHandler_create memory_db (request_for ''postId'' ''p1'') (as_user ''U2'') one_like =
     (Resolved \<lparr>status = 400,
        payload = ErrorBody ''No more likes for same post, same userid''\<rparr>, one_like)
   \<and> spec_error_class 400 = Some BadRequest
   \<and> spec_error_class 400 \<noteq> Some Conflict"
  by (simp add: LikeHandler_create_def send_with_status_def sendStatus_def
      spec_error_class_def)

text \<open>
  C2, amended. For every pair of a post id and a user id on an existing post with no
  Like yet, on a datastore that stores the Like it is given and keeps the post, the first
  \<^verbatim>\<open>create\<close> answers 200 and the second one answers 400 (BadRequest) with the
  duplicate-like error, leaving the datastore as the first call left it.
\<close>

theorem LikeHandler_create_twice:
  assumes "params req ''postId'' = Some pid" and "pid \<noteq> []"
    and "getPost db pid None s = Resolved (Some p)"
    and "exists db \<lparr>like_postId = pid, like_userId = userId locals\<rparr> s = Resolved False"
    and "createLike db \<lparr>like_postId = pid, like_userId = userId locals\<rparr> s = (Resolved (), s')"
    and "getPost db pid None s' = Resolved (Some p')"
    and "exists db \<lparr>like_postId = pid, like_userId = userId locals\<rparr> s' = Resolved True"
  shows "LikeHandler_create db req locals s = (Resolved (sendStatus 200), s')
    \<and> LikeHandler_create db req locals s' =
        (Resolved (send_with_status 400
           (ErrorBody ''No more likes for same post, same userid'')), s')
    \<and> spec_error_class (status (send_with_status 400
           (ErrorBody ''No more likes for same post, same userid''))) = Some BadRequest"
  using assms
  by (simp add: LikeHandler_create_def send_with_status_def spec_error_class_def)

theorem LikeHandler_create_twice_witness:
  "LikeHandler_create memory_db (request_for ''postId'' ''p1'') (as_user ''U2'') one_post =
     (Resolved (sendStatus 200), one_like)
   \<and> LikeHandler_create memory_db (request_for ''postId'' ''p1'') (as_user ''U2'') one_like =
     (Resolved (send_with_status 400
        (ErrorBody ''No more likes for same post, same userid'')), one_like)"
proof -
  have "LikeHandler_create memory_db (request_for ''postId'' ''p1'') (as_user ''U2'') one_post =
       (Resolved (sendStatus 200), one_like)
    \<and> LikeHandler_create memory_db (request_for ''postId'' ''p1'') (as_user ''U2'') one_like =
       (Resolved (send_with_status 400
          (ErrorBody ''No more likes for same post, same userid'')), one_like)
    \<and> spec_error_class (status (send_with_status 400
          (ErrorBody ''No more likes for same post, same userid''))) = Some BadRequest"
    by (rule LikeHandler_create_twice [where pid = "''p1''" and p = example_post
          and p' = example_post]) simp_all
  then show ?thesis by blast
qed

text \<open>
  The in-memory datastore meets the two assumptions about \<^verbatim>\<open>createLike\<close> in every
  state.
\<close>

lemma memory_db_createLike_stores:
  "createLike memory_db l m = (Resolved (), m\<lparr>likes := likes m @ [l]\<rparr>)"
  "exists memory_db l (m\<lparr>likes := likes m @ [l]\<rparr>) = Resolved True"
  "getPost memory_db i uid (m\<lparr>likes := likes m @ [l]\<rparr>) = getPost memory_db i uid m"
  by (simp_all add: memory_db_def)

section \<open>LikeHandler.delete\<close>

lemma memory_db_deleteLike_removes:
  "exists memory_db l (snd (deleteLike memory_db l m)) = Resolved False"
  by (simp add: memory_db_def)

lemma memory_db_deleteLike_keeps_posts:
  "getPost memory_db i uid (snd (deleteLike memory_db l m)) = getPost memory_db i uid m"
  by (simp add: memory_db_def)

text \<open>
  C3. Like \<^verbatim>\<open>delete\<close> answers 400 if \<^verbatim>\<open>postId\<close> is missing (or empty) and 404 if the
  datastore finds no post. If the post exists it hands the pair to \<^verbatim>\<open>deleteLike\<close> and
  answers 200 without asking whether the Like exists. On a datastore whose
  \<^verbatim>\<open>deleteLike\<close> removes the pair and keeps the posts, the pair is absent afterwards, and
  a second \<^verbatim>\<open>delete\<close> answers 200 again and leaves the pair absent.
\<close>

theorem LikeHandler_delete_idempotent:
  fixes db :: "'s Datastore"
  assumes removes:
      "\<And>t. exists db \<lparr>like_postId = pid, like_userId = userId locals\<rparr>
              (snd (deleteLike db \<lparr>like_postId = pid, like_userId = userId locals\<rparr> t))
            = Resolved False"
    and keeps:
      "\<And>t. getPost db pid None
              (snd (deleteLike db \<lparr>like_postId = pid, like_userId = userId locals\<rparr> t))
            = getPost db pid None t"
  shows "(params req ''postId'' = None \<or> params req ''postId'' = Some [] \<longrightarrow>
            LikeHandler_delete db req locals s =
              (Resolved (send_with_status 400 (ErrorBody ''Post ID missing'')), s))
    \<and> (params req ''postId'' = Some pid \<and> pid \<noteq> [] \<and> getPost db pid None s = Resolved None \<longrightarrow>
            LikeHandler_delete db req locals s =
              (Resolved (send_with_status 404 (ErrorBody ''No post found with this ID'')), s))
    \<and> (params req ''postId'' = Some pid \<and> pid \<noteq> [] \<and>
        getPost db pid None s = Resolved (Some p) \<longrightarrow>
            LikeHandler_delete db req locals s =
              (Resolved (sendStatus 200),
               snd (deleteLike db \<lparr>like_postId = pid, like_userId = userId locals\<rparr> s))
          \<and> exists db \<lparr>like_postId = pid, like_userId = userId locals\<rparr>
               (snd (LikeHandler_delete db req locals s)) = Resolved False
          \<and> fst (LikeHandler_delete db req locals (snd (LikeHandler_delete db req locals s)))
              = Resolved (sendStatus 200)
          \<and> exists db \<lparr>like_postId = pid, like_userId = userId locals\<rparr>
               (snd (LikeHandler_delete db req locals
                      (snd (LikeHandler_delete db req locals s)))) = Resolved False)"
proof (intro conjI impI)
  show "LikeHandler_delete db req locals s =
      (Resolved (send_with_status 400 (ErrorBody ''Post ID missing'')), s)"
    if "params req ''postId'' = None \<or> params req ''postId'' = Some []"
    using that by (auto simp: LikeHandler_delete_def)
next
  show "LikeHandler_delete db req locals s =
      (Resolved (send_with_status 404 (ErrorBody ''No post found with this ID'')), s)"
    if "params req ''postId'' = Some pid \<and> pid \<noteq> [] \<and> getPost db pid None s = Resolved None"
    using that by (simp add: LikeHandler_delete_def)
next
  assume h: "params req ''postId'' = Some pid \<and> pid \<noteq> [] \<and>
             getPost db pid None s = Resolved (Some p)"
  let ?like = "\<lparr>like_postId = pid, like_userId = userId locals\<rparr>"
  let ?s1 = "snd (deleteLike db ?like s)"
  show first: "LikeHandler_delete db req locals s = (Resolved (sendStatus 200), ?s1)"
    using h by (simp add: LikeHandler_delete_def)
  have second: "LikeHandler_delete db req locals ?s1 =
      (Resolved (sendStatus 200), snd (deleteLike db ?like ?s1))"
    using h keeps [of s] by (simp add: LikeHandler_delete_def)
  show "exists db ?like (snd (LikeHandler_delete db req locals s)) = Resolved False"
    using removes [of s] by (simp add: first)
  show "fst (LikeHandler_delete db req locals (snd (LikeHandler_delete db req locals s)))
      = Resolved (sendStatus 200)"
    by (simp add: first second)
  show "exists db ?like (snd (LikeHandler_delete db req locals
      (snd (LikeHandler_delete db req locals s)))) = Resolved False"
    using removes [of ?s1] by (simp add: first second)
qed

theorem LikeHandler_delete_idempotent_witness:
  "LikeHandler_delete memory_db bare_request (as_user ''U2'') one_like =
     (Resolved \<lparr>status = 400, payload = ErrorBody ''Post ID missing''\<rparr>, one_like)
   \<and> LikeHandler_delete memory_db (request_for ''postId'' ''p9'') (as_user ''U2'') one_post =
     (Resolved \<lparr>status = 404, payload = ErrorBody ''No post found with this ID''\<rparr>, one_post)
   \<and> LikeHandler_delete memory_db (request_for ''postId'' ''p1'') (as_user ''U2'') one_like =
     (Resolved \<lparr>status = 200, payload = StatusText\<rparr>, one_post)
   \<and> exists memory_db example_like one_post = Resolved False
   \<and> LikeHandler_delete memory_db (request_for ''postId'' ''p1'') (as_user ''U2'') one_post =
     (Resolved \<lparr>status = 200, payload = StatusText\<rparr>, one_post)"
proof -
  note c = LikeHandler_delete_idempotent [where db = memory_db and locals = "as_user ''U2''",
      OF memory_db_deleteLike_removes memory_db_deleteLike_keeps_posts]
  have a: "LikeHandler_delete memory_db bare_request (as_user ''U2'') one_like =
     (Resolved (send_with_status 400 (ErrorBody ''Post ID missing'')), one_like)"
    using c [where req = bare_request and s = one_like and pid = "''p1''", THEN conjunct1]
    by simp
  have b: "LikeHandler_delete memory_db (request_for ''postId'' ''p9'') (as_user ''U2'') one_post =
     (Resolved (send_with_status 404 (ErrorBody ''No post found with this ID'')), one_post)"
    using c [where req = "request_for ''postId'' ''p9''" and s = one_post and pid = "''p9''",
        THEN conjunct2, THEN conjunct1]
    by simp
  have d: "LikeHandler_delete memory_db (request_for ''postId'' ''p1'') (as_user ''U2'') one_like =
     (Resolved (sendStatus 200), one_post)"
    using c [where req = "request_for ''postId'' ''p1''" and s = one_like and pid = "''p1''"
        and p = example_post, THEN conjunct2, THEN conjunct2]
    by simp
  have e: "LikeHandler_delete memory_db (request_for ''postId'' ''p1'') (as_user ''U2'') one_post =
     (Resolved (sendStatus 200), one_post)"
    using c [where req = "request_for ''postId'' ''p1''" and s = one_post and pid = "''p1''"
        and p = example_post, THEN conjunct2, THEN conjunct2]
    by simp
  from a b d e show ?thesis
    by (simp add: send_with_status_def sendStatus_def)
qed

section \<open>PostHandler.create, get and delete\<close>

lemma not_truthy_iff:
  "\<not> truthy v \<longleftrightarrow>
     v = JsonNull \<or> v = JsonBool False \<or> v = JsonNumber 0 \<or> v = JsonString []"
  by (cases v) auto

text \<open>
  C6. For every request whose \<^verbatim>\<open>title\<close> or \<^verbatim>\<open>url\<close> is missing or the empty string,
  Post \<^verbatim>\<open>create\<close> answers 400 and the datastore is left as it was: \<^verbatim>\<open>createPost\<close> is not
  called, whatever the datastore, the identity, the identifier and the clock.
\<close>

theorem PostHandler_create_rejects_blank:
  assumes "body req ''title'' = None \<or> body req ''title'' = Some (JsonString []) \<or>
           body req ''url'' = None \<or> body req ''url'' = Some (JsonString [])"
  shows "PostHandler_create db uuid now req locals s = (Resolved (sendStatus 400), s)"
  using assms by (auto simp: PostHandler_create_def split: option.splits)

theorem PostHandler_create_rejects_blank_witness:
  "PostHandler_create memory_db ''u-1'' 7
     (request_with_body [''title'' \<mapsto> JsonString ''Hi'', ''url'' \<mapsto> JsonString []])
     (as_user ''U1'') one_post
   = (Resolved \<lparr>status = 400, payload = StatusText\<rparr>, one_post)
   \<and> PostHandler_create memory_db ''u-1'' 7
     (request_with_body [''url'' \<mapsto> JsonString ''http://x'']) (as_user ''U1'') one_post
   = (Resolved \<lparr>status = 400, payload = StatusText\<rparr>, one_post)"
proof -
  let ?empty_url =
    "request_with_body [''title'' \<mapsto> JsonString ''Hi'', ''url'' \<mapsto> JsonString []]"
  let ?no_title = "request_with_body [''url'' \<mapsto> JsonString ''http://x'']"
  have h1: "body ?empty_url ''title'' = None \<or>
            body ?empty_url ''title'' = Some (JsonString []) \<or>
            body ?empty_url ''url'' = None \<or> body ?empty_url ''url'' = Some (JsonString [])"
    by (simp add: request_with_body_def)
  have h2: "body ?no_title ''title'' = None \<or>
            body ?no_title ''title'' = Some (JsonString []) \<or>
            body ?no_title ''url'' = None \<or> body ?no_title ''url'' = Some (JsonString [])"
    by (simp add: request_with_body_def)
  show ?thesis
    unfolding PostHandler_create_rejects_blank [OF h1]
      PostHandler_create_rejects_blank [OF h2] sendStatus_def
    by simp
qed


lemma memory_db_fresh_iff:
  "getPost memory_db i uid m = Resolved None \<longleftrightarrow> i \<notin> post_id ` set (posts m)"
  by (auto simp: memory_db_def find_None_iff)


text \<open>
  Why the identifier has to be fresh: had \<^verbatim>\<open>crypto.randomUUID()\<close> returned the id of a
  stored post, \<^verbatim>\<open>create\<close> would still answer 200, and \<^verbatim>\<open>get\<close> of that id would return
  the older post.
\<close>

lemma used_identifier_returns_older_post:
  "fst (PostHandler_create memory_db ''p1'' 1700000000500
         (request_with_body [''title'' \<mapsto> JsonString ''Again'', ''url'' \<mapsto> JsonString ''http://y''])
         (as_user ''U2'') one_post) = Resolved \<lparr>status = 200, payload = StatusText\<rparr>
   \<and> fst (PostHandler_get memory_db (request_for ''id'' ''p1'') anonymous
         (snd (PostHandler_create memory_db ''p1'' 1700000000500
            (request_with_body
               [''title'' \<mapsto> JsonString ''Again'', ''url'' \<mapsto> JsonString ''http://y''])
            (as_user ''U2'') one_post))) =
       Resolved \<lparr>status = 200, payload = PostBody example_post\<rparr>"
  by (simp add: PostHandler_create_def PostHandler_get_def request_with_body_def
      memory_db_def one_post_def example_post_def sendStatus_def send_def)



text \<open>
  C8. Post \<^verbatim>\<open>get\<close> answers 400 if \<^verbatim>\<open>id\<close> is missing (or empty, which Express never
  binds a path parameter to). Otherwise it asks the datastore for the post of that id,
  passing the caller's resolved user id; it answers 404 if the datastore returns none and
  200 with the post returned otherwise. The datastore is left as it was.
\<close>

theorem PostHandler_get_contract:
  "(params req ''id'' = None \<or> params req ''id'' = Some [] \<longrightarrow>
      PostHandler_get db req locals s = (Resolved (sendStatus 400), s))
   \<and> (params req ''id'' = Some i \<and> i \<noteq> [] \<longrightarrow>
        (getPost db i (userId locals) s = Resolved None \<longrightarrow>
           PostHandler_get db req locals s = (Resolved (sendStatus 404), s))
      \<and> (getPost db i (userId locals) s = Resolved (Some p) \<longrightarrow>
           PostHandler_get db req locals s =
             (Resolved \<lparr>status = 200, payload = PostBody p\<rparr>, s)))"
  by (auto simp: PostHandler_get_def send_def)

theorem PostHandler_get_contract_witness:
  "PostHandler_get memory_db bare_request (as_user ''U2'') one_post =
     (Resolved \<lparr>status = 400, payload = StatusText\<rparr>, one_post)
   \<and> PostHandler_get memory_db (request_for ''id'' ''p9'') (as_user ''U2'') one_post =
     (Resolved \<lparr>status = 404, payload = StatusText\<rparr>, one_post)
   \<and> PostHandler_get memory_db (request_for ''id'' ''p1'') (as_user ''U2'') one_post =
     (Resolved \<lparr>status = 200, payload = PostBody example_post\<rparr>, one_post)"
proof -
  note c = PostHandler_get_contract [where db = memory_db and locals = "as_user ''U2''"
      and s = one_post]
  have a: "PostHandler_get memory_db bare_request (as_user ''U2'') one_post =
     (Resolved (sendStatus 400), one_post)"
    using c [where req = bare_request, THEN conjunct1] by simp
  have b: "PostHandler_get memory_db (request_for ''id'' ''p9'') (as_user ''U2'') one_post =
     (Resolved (sendStatus 404), one_post)"
    using c [where req = "request_for ''id'' ''p9''" and i = "''p9''", THEN conjunct2]
    by simp
  have d: "PostHandler_get memory_db (request_for ''id'' ''p1'') (as_user ''U2'') one_post =
     (Resolved \<lparr>status = 200, payload = PostBody example_post\<rparr>, one_post)"
    using c [where req = "request_for ''id'' ''p1''" and i = "''p1''" and p = example_post,
        THEN conjunct2]
    by simp
  from a b d show ?thesis
    by (simp add: sendStatus_def)
qed

text \<open>
  C9. Post \<^verbatim>\<open>delete\<close>, as claimed: the answer is BadRequest if and only if \<^verbatim>\<open>postId\<close>
  is missing. A body whose \<^verbatim>\<open>postId\<close> is present and is the empty string, the number 0,
  \<^verbatim>\<open>false\<close> or \<^verbatim>\<open>null\<close> is answered with 400 as well, and nothing is deleted.
\<close>

theorem PostHandler_delete_empty_postId:
  "body (request_with_body [''postId'' \<mapsto> JsonString []]) ''postId'' \<noteq> None
   \<and> PostHandler_delete memory_db (request_with_body [''postId'' \<mapsto> JsonString []])
       (as_user ''U1'') one_post =
       (Resolved \<lparr>status = 400, payload = StatusText\<rparr>, one_post)
   \<and> PostHandler_delete memory_db (request_with_body [''postId'' \<mapsto> JsonNumber 0])
       (as_user ''U1'') one_post =
       (Resolved \<lparr>status = 400, payload = StatusText\<rparr>, one_post)
   \<and> PostHandler_delete memory_db (request_with_body [''postId'' \<mapsto> JsonBool False])
       (as_user ''U1'') one_post =
       (Resolved \<lparr>status = 400, payload = StatusText\<rparr>, one_post)
   \<and> PostHandler_delete memory_db (request_with_body [''postId'' \<mapsto> JsonNull])
       (as_user ''U1'') one_post =
       (Resolved \<lparr>status = 400, payload = StatusText\<rparr>, one_post)"
  by (simp add: PostHandler_delete_def request_with_body_def sendStatus_def)

text \<open>
  C9, amended. Post \<^verbatim>\<open>delete\<close> answers 400 if and only if \<^verbatim>\<open>postId\<close> is missing or
  falsy, that is \<^verbatim>\<open>null\<close>, \<^verbatim>\<open>false\<close>, the number 0 or the empty string. Otherwise it
  hands the value to \<^verbatim>\<open>deletePost\<close> and answers 200. The caller's identity plays no part:
  the outcome is the same for every resolved user id, so no ownership check is made.
\<close>

theorem PostHandler_delete_contract:
  "(fst (PostHandler_delete db req locals s) = Resolved \<lparr>status = 400, payload = StatusText\<rparr>
      \<longleftrightarrow>
      body req ''postId'' = None \<or> body req ''postId'' = Some JsonNull \<or>
      body req ''postId'' = Some (JsonBool False) \<or>
      body req ''postId'' = Some (JsonNumber 0) \<or>
      body req ''postId'' = Some (JsonString []))
   \<and> (body req ''postId'' = Some v \<and> v \<noteq> JsonNull \<and> v \<noteq> JsonBool False \<and>
       v \<noteq> JsonNumber 0 \<and> v \<noteq> JsonString [] \<longrightarrow>
        PostHandler_delete db req locals s =
          (Resolved \<lparr>status = 200, payload = StatusText\<rparr>, snd (deletePost db v s)))
   \<and> PostHandler_delete db req locals s = PostHandler_delete db req locals' s"
proof (intro conjI impI)
  show "fst (PostHandler_delete db req locals s) =
        Resolved \<lparr>status = 400, payload = StatusText\<rparr> \<longleftrightarrow>
      body req ''postId'' = None \<or> body req ''postId'' = Some JsonNull \<or>
      body req ''postId'' = Some (JsonBool False) \<or>
      body req ''postId'' = Some (JsonNumber 0) \<or>
      body req ''postId'' = Some (JsonString [])"
  proof (cases "body req ''postId''")
    case None
    then show ?thesis by (simp add: PostHandler_delete_def sendStatus_def)
  next
    case (Some v)
    then show ?thesis
      using not_truthy_iff [of v]
      by (cases "truthy v") (simp_all add: PostHandler_delete_def sendStatus_def)
  qed
next
  assume "body req ''postId'' = Some v \<and> v \<noteq> JsonNull \<and> v \<noteq> JsonBool False \<and>
      v \<noteq> JsonNumber 0 \<and> v \<noteq> JsonString []"
  then have "body req ''postId'' = Some v" and "truthy v"
    using not_truthy_iff [of v] by auto
  then show "PostHandler_delete db req locals s =
      (Resolved \<lparr>status = 200, payload = StatusText\<rparr>, snd (deletePost db v s))"
    by (simp add: PostHandler_delete_def sendStatus_def)
next
  show "PostHandler_delete db req locals s = PostHandler_delete db req locals' s"
    by (simp add: PostHandler_delete_def)
qed

theorem PostHandler_delete_contract_witness:
  "PostHandler_delete memory_db (request_with_body [''postId'' \<mapsto> JsonString ''p1''])
       (as_user ''U2'') one_like =
     (Resolved \<lparr>status = 200, payload = StatusText\<rparr>, \<lparr>posts = [], likes = [example_like]\<rparr>)
   \<and> PostHandler_delete memory_db (request_with_body [''postId'' \<mapsto> JsonNumber 7])
       (as_user ''U2'') one_like =
     (Resolved \<lparr>status = 200, payload = StatusText\<rparr>, one_like)
   \<and> fst (PostHandler_delete memory_db bare_request (as_user ''U2'') one_like) =
       Resolved \<lparr>status = 400, payload = StatusText\<rparr>
   \<and> fst (PostHandler_delete memory_db (request_with_body [''postId'' \<mapsto> JsonNumber 0])
         (as_user ''U2'') one_like) =
       Resolved \<lparr>status = 400, payload = StatusText\<rparr>"
proof -
  note c = PostHandler_delete_contract [where db = memory_db and locals = "as_user ''U2''"
      and s = one_like]
  have a: "PostHandler_delete memory_db (request_with_body [''postId'' \<mapsto> JsonString ''p1''])
      (as_user ''U2'') one_like =
      (Resolved \<lparr>status = 200, payload = StatusText\<rparr>,
       snd (deletePost memory_db (JsonString ''p1'') one_like))"
    using c [where req = "request_with_body [''postId'' \<mapsto> JsonString ''p1'']"
        and v = "JsonString ''p1''", THEN conjunct2, THEN conjunct1]
    by (simp add: request_with_body_def)
  have b: "PostHandler_delete memory_db (request_with_body [''postId'' \<mapsto> JsonNumber 7])
      (as_user ''U2'') one_like =
      (Resolved \<lparr>status = 200, payload = StatusText\<rparr>,
       snd (deletePost memory_db (JsonNumber 7) one_like))"
    using c [where req = "request_with_body [''postId'' \<mapsto> JsonNumber 7]"
        and v = "JsonNumber 7", THEN conjunct2, THEN conjunct1]
    by (simp add: request_with_body_def)
  have d: "fst (PostHandler_delete memory_db bare_request (as_user ''U2'') one_like) =
      Resolved \<lparr>status = 400, payload = StatusText\<rparr>"
    using c [where req = bare_request, THEN conjunct1]
    by (simp add: bare_request_def)
  have e: "fst (PostHandler_delete memory_db (request_with_body [''postId'' \<mapsto> JsonNumber 0])
      (as_user ''U2'') one_like) = Resolved \<lparr>status = 400, payload = StatusText\<rparr>"
    using c [where req = "request_with_body [''postId'' \<mapsto> JsonNumber 0]", THEN conjunct1]
    by (simp add: request_with_body_def)
  from a b d e show ?thesis
    by (simp add: memory_db_def one_like_def example_post_def)
qed

section \<open>The middleware chain\<close>

lemma Endpoints_keys_all: "e \<in> set Endpoints_keys"
  by (cases e) (simp_all add: Endpoints_keys_def)

lemma set_Endpoints_keys: "set Endpoints_keys = UNIV"
  using Endpoints_keys_all by auto

lemma enforce_is_not_parse:
  "(enforceJwtMiddleware :: 's RequestHandler) \<noteq> jwtParseMiddleware verify"
proof
  assume "(enforceJwtMiddleware :: 's RequestHandler) = jwtParseMiddleware verify"
  then have "(enforceJwtMiddleware :: 's RequestHandler) bare_request anonymous undefined =
      jwtParseMiddleware verify bare_request anonymous undefined"
    by simp
  then show False
    by (simp add: enforceJwtMiddleware_def jwtParseMiddleware_def bare_request_def
        anonymous_def)
qed

lemma enforce_is_not_a_handler:
  "(enforceJwtMiddleware :: 's RequestHandler) \<noteq> asyncHandler handler"
proof
  assume "(enforceJwtMiddleware :: 's RequestHandler) = asyncHandler handler"
  then have "(enforceJwtMiddleware :: 's RequestHandler) bare_request (as_user ''U1'') undefined =
      asyncHandler handler bare_request (as_user ''U1'') undefined"
    by simp
  then show False
    by (simp add: enforceJwtMiddleware_def asyncHandler_def as_user_def
        split: prod.splits promise.splits)
qed

text \<open>
  A rejection of the handler's own promise reaches the error boundary: the answer is the
  generic 500, whatever the error.
\<close>

lemma rejected_handler_is_500:
  assumes "handler req locals s = (Rejected e, s')"
  shows "run_chain [asyncHandler handler] req locals s =
           (\<lparr>status = 500, payload = GenericFailure\<rparr>, s')"
  using assms by (simp add: asyncHandler_def errHandler_def)

lemma rejected_createPost_is_500:
  assumes "body req ''title'' = Some title" and "truthy title"
    and "body req ''url'' = Some link" and "truthy link"
    and "createPost db
           \<lparr>post_id = uuid, post_postedAt = now, post_title = title, post_url = link,
            post_userId = userId locals\<rparr> s = (Rejected e, s')"
  shows "run_chain [asyncHandler (PostHandler_create db uuid now)] req locals s =
           (\<lparr>status = 500, payload = GenericFailure\<rparr>, s')"
  using assms
  by (simp add: asyncHandler_def errHandler_def PostHandler_create_def)

text \<open>
  C4. For every endpoint of the enumeration, \<^verbatim>\<open>createServer\<close> registers a route whose
  chain begins with the parse stage; the enforce stage is in the chain exactly when the
  endpoint's config has \<^verbatim>\<open>auth\<close> set, so the chain is parse, enforce, handler for a gated
  endpoint and parse, handler otherwise. On a gated endpoint a request without a
  credential, or with one the check refuses, is answered 401 (Unauthorized) by the
  enforce stage and the handler does not run; a request with a valid credential reaches
  the handler with the resolved identity, and on an ungated endpoint the handler runs
  either way.
\<close>

theorem gate_composition:
  fixes HANDLERS :: "Endpoints \<Rightarrow> 's Handler"
  shows
  "set (register verify CONFIGS HANDLERS) =
     range (\<lambda>entry. bind verify (CONFIGS entry) (HANDLERS entry))
   \<and> hd (chain (bind verify (CONFIGS e) (HANDLERS e))) = jwtParseMiddleware verify
   \<and> (enforceJwtMiddleware \<in> set (chain (bind verify (CONFIGS e) (HANDLERS e)))
        \<longleftrightarrow> auth (CONFIGS e))
   \<and> chain (bind verify (CONFIGS e) (HANDLERS e)) =
       (if auth (CONFIGS e)
        then [jwtParseMiddleware verify, enforceJwtMiddleware, asyncHandler (HANDLERS e)]
        else [jwtParseMiddleware verify, asyncHandler (HANDLERS e)])
   \<and> (userId locals = None \<longrightarrow>
         enforceJwtMiddleware req locals s = Answered (sendStatus 401) s)
   \<and> spec_error_class (status (sendStatus 401)) = Some Unauthorized
   \<and> (auth (CONFIGS e) \<and>
       (authorization req = None \<or> (\<exists>c. authorization req = Some c \<and> verify c = None)) \<longrightarrow>
         run_chain (chain (bind verify (CONFIGS e) (HANDLERS e))) req anonymous s =
           (sendStatus 401, s))
   \<and> (authorization req = Some c \<and> verify c = Some uid \<longrightarrow>
         run_chain (chain (bind verify (CONFIGS e) (HANDLERS e))) req anonymous s =
           run_chain [asyncHandler (HANDLERS e)] req (as_user uid) s)
   \<and> (\<not> auth (CONFIGS e) \<and>
       (authorization req = None \<or> (\<exists>c. authorization req = Some c \<and> verify c = None)) \<longrightarrow>
         run_chain (chain (bind verify (CONFIGS e) (HANDLERS e))) req anonymous s =
           run_chain [asyncHandler (HANDLERS e)] req anonymous s)"
proof (intro conjI impI)
  show "set (register verify CONFIGS HANDLERS) =
      range (\<lambda>entry. bind verify (CONFIGS entry) (HANDLERS entry))"
    by (simp add: register_def set_Endpoints_keys)
next
  show "hd (chain (bind verify (CONFIGS e) (HANDLERS e))) = jwtParseMiddleware verify"
    by (simp add: bind_def)
next
  have p: "(enforceJwtMiddleware :: 's RequestHandler) \<noteq> jwtParseMiddleware verify"
    by (rule enforce_is_not_parse)
  have h: "enforceJwtMiddleware \<noteq> asyncHandler (HANDLERS e)"
    by (rule enforce_is_not_a_handler)
  from p h show "enforceJwtMiddleware \<in> set (chain (bind verify (CONFIGS e) (HANDLERS e)))
      \<longleftrightarrow> auth (CONFIGS e)"
    by (simp add: bind_def)
next
  show "chain (bind verify (CONFIGS e) (HANDLERS e)) =
       (if auth (CONFIGS e)
        then [jwtParseMiddleware verify, enforceJwtMiddleware, asyncHandler (HANDLERS e)]
        else [jwtParseMiddleware verify, asyncHandler (HANDLERS e)])"
    by (simp add: bind_def)
next
  show "enforceJwtMiddleware req locals s = Answered (sendStatus 401) s"
    if "userId locals = None"
    using that by (simp add: enforceJwtMiddleware_def)
next
  show "spec_error_class (status (sendStatus 401)) = Some Unauthorized"
    by (simp add: spec_error_class_def sendStatus_def)
next
  assume "auth (CONFIGS e) \<and>
      (authorization req = None \<or> (\<exists>c. authorization req = Some c \<and> verify c = None))"
  then show "run_chain (chain (bind verify (CONFIGS e) (HANDLERS e))) req anonymous s =
      (sendStatus 401, s)"
    by (auto simp: bind_def jwtParseMiddleware_def enforceJwtMiddleware_def anonymous_def)
next
  assume "authorization req = Some c \<and> verify c = Some uid"
  then show "run_chain (chain (bind verify (CONFIGS e) (HANDLERS e))) req anonymous s =
      run_chain [asyncHandler (HANDLERS e)] req (as_user uid) s"
    by (simp add: bind_def jwtParseMiddleware_def enforceJwtMiddleware_def anonymous_def
        as_user_def)
next
  assume "\<not> auth (CONFIGS e) \<and>
      (authorization req = None \<or> (\<exists>c. authorization req = Some c \<and> verify c = None))"
  then show "run_chain (chain (bind verify (CONFIGS e) (HANDLERS e))) req anonymous s =
      run_chain [asyncHandler (HANDLERS e)] req anonymous s"
    by (auto simp: bind_def jwtParseMiddleware_def)
qed

theorem gate_composition_witness:
  "chain (bind example_verify gated_config (LikeHandler_create memory_db)) =
     [jwtParseMiddleware example_verify, enforceJwtMiddleware,
      asyncHandler (LikeHandler_create memory_db)]
   \<and> chain (bind example_verify open_config (LikeHandler_list memory_db)) =
     [jwtParseMiddleware example_verify, asyncHandler (LikeHandler_list memory_db)]
   \<and> run_chain (chain (bind example_verify gated_config (LikeHandler_create memory_db)))
       bare_request anonymous one_post = (\<lparr>status = 401, payload = StatusText\<rparr>, one_post)
   \<and> run_chain (chain (bind example_verify gated_config (LikeHandler_create memory_db)))
       (request_for ''postId'' ''p1'') anonymous one_post =
       (\<lparr>status = 200, payload = StatusText\<rparr>, one_like)
   \<and> run_chain (chain (bind example_verify open_config (LikeHandler_list memory_db)))
       ((request_for ''postId'' ''p1'')\<lparr>authorization := None\<rparr>) anonymous one_like =
       (\<lparr>status = 200, payload = LikesBody 1\<rparr>, one_like)"
proof -
  note g = gate_composition [where verify = example_verify and CONFIGS = "\<lambda>e. gated_config"
      and HANDLERS = "\<lambda>e. LikeHandler_create memory_db" and e = Endpoints_createLike]
  note o = gate_composition [where verify = example_verify and CONFIGS = "\<lambda>e. open_config"
      and HANDLERS = "\<lambda>e. LikeHandler_list memory_db" and e = Endpoints_listLikes]
  have a: "chain (bind example_verify gated_config (LikeHandler_create memory_db)) =
     [jwtParseMiddleware example_verify, enforceJwtMiddleware,
      asyncHandler (LikeHandler_create memory_db)]"
    using g [THEN conjunct2, THEN conjunct2, THEN conjunct2, THEN conjunct1]
    by (simp add: gated_config_def)
  have b: "chain (bind example_verify open_config (LikeHandler_list memory_db)) =
     [jwtParseMiddleware example_verify, asyncHandler (LikeHandler_list memory_db)]"
    using o [THEN conjunct2, THEN conjunct2, THEN conjunct2, THEN conjunct1]
    by (simp add: open_config_def)
  have c: "run_chain (chain (bind example_verify gated_config (LikeHandler_create memory_db)))
       bare_request anonymous one_post = (sendStatus 401, one_post)"
    using g [where req = bare_request and s = one_post, THEN conjunct2, THEN conjunct2,
        THEN conjunct2, THEN conjunct2, THEN conjunct2, THEN conjunct2, THEN conjunct1]
    by (simp add: gated_config_def bare_request_def)
  have d: "run_chain (chain (bind example_verify gated_config (LikeHandler_create memory_db)))
       (request_for ''postId'' ''p1'') anonymous one_post =
       run_chain [asyncHandler (LikeHandler_create memory_db)]
         (request_for ''postId'' ''p1'') (as_user ''U2'') one_post"
    using g [where req = "request_for ''postId'' ''p1''" and s = one_post
        and c = "''Bearer t2''" and uid = "''U2''", THEN conjunct2, THEN conjunct2,
        THEN conjunct2, THEN conjunct2, THEN conjunct2, THEN conjunct2, THEN conjunct2,
        THEN conjunct1]
    by (simp add: request_for_def example_verify_def)
  have e: "run_chain (chain (bind example_verify open_config (LikeHandler_list memory_db)))
       ((request_for ''postId'' ''p1'')\<lparr>authorization := None\<rparr>) anonymous one_like =
       run_chain [asyncHandler (LikeHandler_list memory_db)]
         ((request_for ''postId'' ''p1'')\<lparr>authorization := None\<rparr>) anonymous one_like"
    using o [where req = "(request_for ''postId'' ''p1'')\<lparr>authorization := None\<rparr>"
        and s = one_like, THEN conjunct2, THEN conjunct2,
        THEN conjunct2, THEN conjunct2, THEN conjunct2, THEN conjunct2, THEN conjunct2,
        THEN conjunct2]
    by (simp add: open_config_def)
  have d': "run_chain [asyncHandler (LikeHandler_create memory_db)]
         (request_for ''postId'' ''p1'') (as_user ''U2'') one_post =
       (sendStatus 200, one_like)"
    by (simp add: asyncHandler_def LikeHandler_create_def)
  have e': "run_chain [asyncHandler (LikeHandler_list memory_db)]
         ((request_for ''postId'' ''p1'')\<lparr>authorization := None\<rparr>) anonymous one_like =
       (send (LikesBody 1), one_like)"
    by (simp add: asyncHandler_def LikeHandler_list_def request_for_def memory_db_def
        one_like_def example_like_def)
  from a b c d e d' e' show ?thesis
    by (simp add: sendStatus_def send_def)
qed

section \<open>Commands that are not awaited\<close>

text \<open>
  C5. An unexpected failure during request handling is claimed to reach the error
  boundary and be answered with the generic 500. It is so for every call the handlers
  await. \<^verbatim>\<open>createLike\<close>, \<^verbatim>\<open>deleteLike\<close> and \<^verbatim>\<open>deletePost\<close> are not awaited: on a
  datastore that rejects all three, the full chain of a gated endpoint answers each of
  the three requests with 200.
\<close>

theorem rejected_command_answered_200:
  "createLike failing_db example_like one_post = (Rejected ''SQLITE_BUSY'', one_post)
   \<and> run_chain (chain (bind example_verify gated_config (LikeHandler_create failing_db)))
       (request_for ''postId'' ''p1'') anonymous one_post =
       (\<lparr>status = 200, payload = StatusText\<rparr>, one_post)
   \<and> deleteLike failing_db example_like one_like = (Rejected ''SQLITE_BUSY'', one_like)
   \<and> run_chain (chain (bind example_verify gated_config (LikeHandler_delete failing_db)))
       (request_for ''postId'' ''p1'') anonymous one_like =
       (\<lparr>status = 200, payload = StatusText\<rparr>, one_like)
   \<and> deletePost failing_db (JsonString ''p1'') one_post =
       (Rejected ''SQLITE_BUSY'', one_post)
   \<and> run_chain (chain (bind example_verify gated_config (PostHandler_delete failing_db)))
       (request_with_body [''postId'' \<mapsto> JsonString ''p1'']) anonymous one_post =
       (\<lparr>status = 200, payload = StatusText\<rparr>, one_post)"
  by (simp add: failing_db_def memory_db_def bind_def gated_config_def
      jwtParseMiddleware_def enforceJwtMiddleware_def asyncHandler_def example_verify_def
      request_for_def request_with_body_def anonymous_def
      LikeHandler_create_def LikeHandler_delete_def PostHandler_delete_def
      sendStatus_def one_post_def one_like_def example_like_def example_post_def)

section \<open>The client's retry predicate\<close>

text \<open>
  C10. \<^verbatim>\<open>retry\<close> returns true if and only if the status of the error is not a number,
  or it is at least 500 and fewer than two failures came before. So an \<^verbatim>\<open>ApiError\<close> with
  a 4xx status is never retried, and for one with a status of 500 or more the predicate
  holds at the failure counts 0 and 1 only: the query is retried twice and no more.
\<close>

theorem retry_policy:
  "(retry failureCount error \<longleftrightarrow>
      typeof (error_status error) \<noteq> ''number'' \<or>
      (\<exists>st. error_status error = JsNumber st \<and> 500 \<le> st \<and> failureCount < 2))
   \<and> (400 \<le> st \<and> st < 500 \<longrightarrow> \<not> retry failureCount (ApiError st msg))
   \<and> (500 \<le> st \<longrightarrow> {n. retry n (ApiError st msg)} = {0, 1})"
proof (intro conjI impI)
  show "retry failureCount error \<longleftrightarrow>
      typeof (error_status error) \<noteq> ''number'' \<or>
      (\<exists>st. error_status error = JsNumber st \<and> 500 \<le> st \<and> failureCount < 2)"
    by (cases "error_status error") (simp_all add: retry_def)
next
  assume "400 \<le> st \<and> st < 500"
  then show "\<not> retry failureCount (ApiError st msg)"
    by (simp add: retry_def ApiError_def)
next
  assume "500 \<le> st"
  then have "\<And>n. retry n (ApiError st msg) \<longleftrightarrow> n < 2"
    by (simp add: retry_def ApiError_def)
  then have "{n. retry n (ApiError st msg)} = {n. n < 2}"
    by simp
  also have "{n::nat. n < 2} = {0, 1}"
    by (auto simp: less_2_cases_iff)
  finally show "{n. retry n (ApiError st msg)} = {0, 1}" .
qed

theorem retry_policy_witness:
  "{n. retry n (ApiError 503 ''Service Unavailable'')} = {0, 1}
   \<and> \<not> retry 0 (ApiError 404 ''Not Found'')
   \<and> retry 7 \<lparr>error_status = JsUndefined, error_message = ''Failed to fetch''\<rparr>"
proof -
  have a: "{n. retry n (ApiError 503 ''Service Unavailable'')} = {0, 1}"
    using retry_policy [where st = 503 and msg = "''Service Unavailable''",
        THEN conjunct2, THEN conjunct2]
    by simp
  have b: "\<not> retry 0 (ApiError 404 ''Not Found'')"
    using retry_policy [where st = 404 and msg = "''Not Found''" and failureCount = 0,
        THEN conjunct2, THEN conjunct1]
    by simp
  have c: "retry 7 \<lparr>error_status = JsUndefined, error_message = ''Failed to fetch''\<rparr>"
    using retry_policy [where failureCount = 7
      and error = "\<lparr>error_status = JsUndefined, error_message = ''Failed to fetch''\<rparr>",
        THEN conjunct1]
    by simp
  from a b c show ?thesis by blast
qed

end
